theory Spec2Isabelle
  imports Main "HOL-Library.Word"
begin

section \<open>The outside world\<close>

text \<open>
  The backend talks to four things it does not control: the wall clock (\<open>Date.now()\<close>),
  the Redis connection (\<open>redis.status\<close>), the random generator
  (\<open>crypto.randomBytes\<close>) and the two HTTP peers reached through axios (the OAuth
  token endpoint and the Salesforce REST API). Each of them is an oracle of the
  environment \<open>env\<close>, indexed by a logical step counter \<open>tick\<close>. The counter
  advances whenever the program waits for I/O (a Redis command, an HTTP call) or draws
  random bytes; synchronous code in between reads the clock and the connection status
  of the current step. All theorems quantify over the environment.
\<close>

datatype axios_error = HttpStatus nat | NoResponse

datatype http_method = GET | POST | PUT | DELETE

datatype token_grant = AuthorizationCode string | RefreshGrant string

record token_response =
  access_token :: "string option"
  refresh_token :: "string option"
  instance_url :: "string option"
  expires_in :: "int option"

record api_request =
  req_method :: http_method
  req_url :: string
  req_authorization :: string
  req_data :: "string option"

record env =
  date_now :: "nat \<Rightarrow> int"
  redis_ready :: "nat \<Rightarrow> bool"
  random_byte :: "nat \<Rightarrow> nat \<Rightarrow> 8 word"
  token_endpoint :: "nat \<Rightarrow> token_grant \<Rightarrow> axios_error + token_response"
  salesforce_api :: "nat \<Rightarrow> api_request \<Rightarrow> axios_error + string"

section \<open>Data model\<close>

text \<open>
  \<open>TokenData\<close> is the interface of \<open>services/tokenStore.ts\<close>; the state-keyed
  auth routes store entries of the same shape. The string fields are optional in the
  model because the code copies them unchecked from the provider's JSON
  (\<open>accessToken: access_token\<close>), so they can be \<open>undefined\<close> at run time.
  The in-memory variant of the live routes stores a \<open>timestamp\<close> instead of
  \<open>expiresAt\<close>. Numbers are integers (epoch milliseconds and seconds, all far below
  \<open>2^53\<close>).
\<close>

record credentials =
  accessToken :: "string option"
  refreshToken :: "string option"
  instanceUrl :: "string option"

record TokenData = credentials +
  expiresAt :: int

record LiveTokenData = credentials +
  timestamp :: int

record session =
  userId :: string
  timestamp :: int

record redis_entry =
  payload :: TokenData
  deadline :: int

text \<open>
  The trace records, in order, every entry into a refresh function and every outbound
  HTTP call.
\<close>

datatype event =
    RefreshCall string
  | TokenPost token_grant
  | ApiRequest api_request

text \<open>
  One world holds the state of all modules: the Redis database behind
  \<open>services/tokenStore.ts\<close>, the module-level \<open>tokenStore\<close> object of the in-memory
  live routes (\<open>liveTokenStore\<close>), and the module-level \<open>sessionStore\<close> and
  \<open>tokenStore\<close> objects of the state-keyed auth routes.
\<close>

record world =
  tick :: nat
  trace :: "event list"
  redis :: "string \<rightharpoonup> redis_entry"
  liveTokenStore :: "string \<rightharpoonup> LiveTokenData"
  sessionStore :: "string \<rightharpoonup> session"
  tokenStore :: "string \<rightharpoonup> TokenData"

datatype error =
    Error string
  | RedisReplyError
  | Axios axios_error

datatype http_response =
    Redirect string
  | Json nat string

section \<open>JavaScript values\<close>

text \<open>
  \<open>truthy\<close> is JavaScript's truthiness of a value that is a string or
  \<open>undefined\<close>; \<open>js_str\<close> is what a template literal or a property key makes of it;
  \<open>js_or\<close> is \<open>a || b\<close>.
\<close>

definition truthy :: "string option \<Rightarrow> bool" where
  "truthy v = (case v of None \<Rightarrow> False | Some s \<Rightarrow> s \<noteq> [])"

definition js_str :: "string option \<Rightarrow> string" where
  "js_str v = (case v of None \<Rightarrow> ''undefined'' | Some s \<Rightarrow> s)"

definition js_or :: "string option \<Rightarrow> string option \<Rightarrow> string option" where
  "js_or a b = (if truthy a then a else b)"

text \<open>
  \<open>parseInt(expires_in || '3600')\<close> for an \<open>expires_in\<close> that is absent or a JSON
  integer: absent and \<open>0\<close> are falsy and give the fallback of one hour.
\<close>

definition parseInt_expires_in :: "int option \<Rightarrow> int" where
  "parseInt_expires_in v = (case v of None \<Rightarrow> 3600 | Some n \<Rightarrow> if n = 0 then 3600 else n)"

text \<open>
  The module-level stores are plain objects (\<open>{}\<close>) used as dictionaries. The model
  keeps their own properties in a map. A read \<open>obj[k]\<close> of a key that is not an own
  property still finds the members every object inherits from \<open>Object.prototype\<close>:
  such a value is truthy and has none of the fields the code reads from it. An
  assignment to the key \<open>__proto__\<close> creates no own property.
\<close>

definition Object_prototype_names :: "string list" where
  "Object_prototype_names =
     [''constructor'', ''__defineGetter__'', ''__defineSetter__'', ''hasOwnProperty'',
      ''__lookupGetter__'', ''__lookupSetter__'', ''isPrototypeOf'',
      ''propertyIsEnumerable'', ''toString'', ''valueOf'', ''__proto__'',
      ''toLocaleString'']"

datatype 'a js_prop = Own 'a | Inherited | Undefined

definition js_get :: "(string \<rightharpoonup> 'a) \<Rightarrow> string \<Rightarrow> 'a js_prop" where
  "js_get obj k =
     (case obj k of
        Some v \<Rightarrow> Own v
      | None \<Rightarrow> if k \<in> set Object_prototype_names then Inherited else Undefined)"

definition js_set :: "(string \<rightharpoonup> 'a) \<Rightarrow> string \<Rightarrow> 'a \<Rightarrow> (string \<rightharpoonup> 'a)" where
  "js_set obj k v = (if k = ''__proto__'' then obj else obj(k \<mapsto> v))"

definition js_delete :: "(string \<rightharpoonup> 'a) \<Rightarrow> string \<Rightarrow> (string \<rightharpoonup> 'a)" where
  "js_delete obj k = obj(k := None)"

definition field :: "('a \<Rightarrow> 'b option) \<Rightarrow> 'a js_prop \<Rightarrow> 'b option" where
  "field f p = (case p of Own x \<Rightarrow> f x | Inherited \<Rightarrow> None | Undefined \<Rightarrow> None)"

section \<open>Primitive interactions\<close>

definition step :: "world \<Rightarrow> world" where
  "step w = w\<lparr>tick := Suc (tick w)\<rparr>"

definition emit :: "event \<Rightarrow> world \<Rightarrow> world" where
  "emit e w = w\<lparr>trace := trace w @ [e]\<rparr>"

definition Date_now :: "env \<Rightarrow> world \<Rightarrow> int" where
  "Date_now env w = date_now env (tick w)"

definition isRedisConnected :: "env \<Rightarrow> world \<Rightarrow> bool" where
  "isRedisConnected env w = redis_ready env (tick w)"

text \<open>
  The three Redis commands the store uses. \<open>SET key value PX ttl\<close> is refused by the
  server when \<open>ttl\<close> is not positive (the client's promise rejects and nothing is
  written); an entry is no longer returned once the clock has reached its deadline.
  The stored value is \<open>JSON.stringify(token)\<close> and the read value is \<open>JSON.parse\<close>
  of it, which gives the same fields back.
\<close>

definition redis_set :: "env \<Rightarrow> string \<Rightarrow> TokenData \<Rightarrow> int \<Rightarrow> world \<Rightarrow> (error + unit) \<times> world" where
  "redis_set env key v px w =
     (if px \<le> 0 then (Inl RedisReplyError, step w)
      else (Inr (), step (w\<lparr>redis := (redis w)(key \<mapsto>
              \<lparr>payload = v, deadline = Date_now env w + px\<rparr>)\<rparr>)))"

definition redis_get :: "env \<Rightarrow> string \<Rightarrow> world \<Rightarrow> TokenData option \<times> world" where
  "redis_get env key w =
     (case redis w key of
        None \<Rightarrow> (None, step w)
      | Some e \<Rightarrow> (if Date_now env w < deadline e then Some (payload e) else None, step w))"

definition redis_del :: "string \<Rightarrow> world \<Rightarrow> world" where
  "redis_del key w = step (w\<lparr>redis := (redis w)(key := None)\<rparr>)"

definition axios_post_token :: "env \<Rightarrow> token_grant \<Rightarrow> world \<Rightarrow> (axios_error + token_response) \<times> world" where
  "axios_post_token env g w = (token_endpoint env (tick w) g, step (emit (TokenPost g) w))"

definition axios_request :: "env \<Rightarrow> api_request \<Rightarrow> world \<Rightarrow> (axios_error + string) \<times> world" where
  "axios_request env rq w = (salesforce_api env (tick w) rq, step (emit (ApiRequest rq) w))"

text \<open>\<open>crypto.randomBytes(n)\<close> and \<open>Buffer.toString('hex')\<close>.\<close>

definition randomBytes :: "env \<Rightarrow> nat \<Rightarrow> world \<Rightarrow> 8 word list \<times> world" where
  "randomBytes env n w = (map (random_byte env (tick w)) [0..<n], step w)"

definition hexdigits :: string where
  "hexdigits = ''0123456789abcdef''"

definition hex_byte :: "8 word \<Rightarrow> string" where
  "hex_byte b = [hexdigits ! (unat b div 16), hexdigits ! (unat b mod 16)]"

definition toHex :: "8 word list \<Rightarrow> string" where
  "toHex bs = concat (map hex_byte bs)"

section \<open>services/tokenStore.ts\<close>

definition REDIS_PREFIX :: string where
  "REDIS_PREFIX = ''kublish:token''"

definition token_key :: "string \<Rightarrow> string" where
  "token_key uid = REDIS_PREFIX @ '':'' @ uid"

definition setTokenData :: "env \<Rightarrow> string \<Rightarrow> TokenData \<Rightarrow> world \<Rightarrow> (error + unit) \<times> world" where
  "setTokenData env uid token w =
     (let key = token_key uid;
          ttl = expiresAt token - Date_now env w
      in if isRedisConnected env w then redis_set env key token ttl w
         else (Inr (), w))"

definition getTokenData :: "env \<Rightarrow> string \<Rightarrow> world \<Rightarrow> TokenData option \<times> world" where
  "getTokenData env uid w =
     (let key = token_key uid
      in if isRedisConnected env w then redis_get env key w
         else (None, w))"

definition clearTokenData :: "env \<Rightarrow> string \<Rightarrow> world \<Rightarrow> world" where
  "clearTokenData env uid w =
     (let key = token_key uid
      in if isRedisConnected env w then redis_del key w else w)"

section \<open>routes/salesforceLive.ts on the Redis token store\<close>

definition makeRequest :: "env \<Rightarrow> http_method \<Rightarrow> string \<Rightarrow> string option \<Rightarrow> string option \<Rightarrow> string option \<Rightarrow> world \<Rightarrow> (axios_error + string) \<times> world" where
  "makeRequest env method endpoint data tok inst w =
     axios_request env
       \<lparr>req_method = method, req_url = js_str inst @ endpoint,
        req_authorization = ''Bearer '' @ js_str tok, req_data = data\<rparr> w"

definition refreshAccessToken :: "env \<Rightarrow> string \<Rightarrow> world \<Rightarrow> TokenData option \<times> world" where
  "refreshAccessToken env uid w =
     (case getTokenData env uid (emit (RefreshCall uid) w) of
        (None, w1) \<Rightarrow> (None, w1)
      | (Some tokenData, w1) \<Rightarrow>
          if \<not> truthy (refreshToken tokenData) then (None, w1)
          else
            (case axios_post_token env (RefreshGrant (js_str (refreshToken tokenData))) w1 of
               (Inl err, w2) \<Rightarrow> (None, w2)
             | (Inr data, w2) \<Rightarrow>
                 (let expAt = Date_now env w2 + parseInt_expires_in (expires_in data) * 1000;
                      updatedToken =
                        \<lparr>accessToken = access_token data,
                         refreshToken = js_or (refresh_token data) (refreshToken tokenData),
                         instanceUrl = js_or (instance_url data) (instanceUrl tokenData),
                         expiresAt = expAt\<rparr>
                  in case setTokenData env uid updatedToken w2 of
                       (Inl err, w3) \<Rightarrow> (None, w3)
                     | (Inr u, w3) \<Rightarrow> (Some updatedToken, w3))))"

definition makeSalesforceApiCall :: "env \<Rightarrow> string \<Rightarrow> string \<Rightarrow> http_method \<Rightarrow> string option \<Rightarrow> world \<Rightarrow> (error + string) \<times> world" where
  "makeSalesforceApiCall env uid endpoint method data w =
     (case getTokenData env uid w of
        (None, w1) \<Rightarrow> (Inl (Error ''User is not authenticated with Salesforce.''), w1)
      | (Some tokenData, w1) \<Rightarrow>
          (let now = Date_now env w1
           in if expiresAt tokenData < now + 30000 then
                (case refreshAccessToken env uid w1 of
                   (None, w2) \<Rightarrow> (Inl (Error ''Unable to refresh token.''), w2)
                 | (Some refreshed, w2) \<Rightarrow>
                     (case makeRequest env method endpoint data
                             (accessToken refreshed) (instanceUrl refreshed) w2 of
                        (Inl err, w3) \<Rightarrow> (Inl (Axios err), w3)
                      | (Inr resp, w3) \<Rightarrow> (Inr resp, w3)))
              else
                (case makeRequest env method endpoint data
                        (accessToken tokenData) (instanceUrl tokenData) w1 of
                   (Inl err, w3) \<Rightarrow> (Inl (Axios err), w3)
                 | (Inr resp, w3) \<Rightarrow> (Inr resp, w3))))"

section \<open>routes/salesforceLive.ts on the in-memory token store\<close>

text \<open>
  The second copy of the live routes keeps its tokens in a module-level object and
  retries once after a \<open>401\<close>. Its functions carry the suffix \<open>_mem\<close>.
\<close>

definition refreshAccessToken_mem :: "env \<Rightarrow> string \<Rightarrow> world \<Rightarrow> LiveTokenData option \<times> world" where
  "refreshAccessToken_mem env uid w =
     (let w0 = emit (RefreshCall uid) w;
          tokenData = js_get (liveTokenStore w0) uid
      in if tokenData = Undefined \<or> \<not> truthy (field refreshToken tokenData) then (None, w0)
         else
           (case axios_post_token env (RefreshGrant (js_str (field refreshToken tokenData))) w0 of
              (Inl err, w1) \<Rightarrow> (None, w1)
            | (Inr data, w1) \<Rightarrow>
                (let updatedTokenData =
                       \<lparr>accessToken = access_token data,
                        refreshToken = js_or (refresh_token data) (field refreshToken tokenData),
                        instanceUrl = js_or (instance_url data) (field instanceUrl tokenData),
                        LiveTokenData.timestamp = Date_now env w1\<rparr>
                 in (Some updatedTokenData,
                     w1\<lparr>liveTokenStore := js_set (liveTokenStore w1) uid updatedTokenData\<rparr>))))"

definition makeSalesforceApiCall_mem :: "env \<Rightarrow> string \<Rightarrow> string \<Rightarrow> http_method \<Rightarrow> string option \<Rightarrow> world \<Rightarrow> (error + string) \<times> world" where
  "makeSalesforceApiCall_mem env uid endpoint method data w =
     (let tokenData = js_get (liveTokenStore w) uid
      in if tokenData = Undefined then
           (Inl (Error ''No authentication data found. Please authenticate first.''), w)
         else
           (case makeRequest env method endpoint data
                   (field accessToken tokenData) (field instanceUrl tokenData) w of
              (Inr resp, w1) \<Rightarrow> (Inr resp, w1)
            | (Inl err, w1) \<Rightarrow>
                if err = HttpStatus 401 then
                  (case refreshAccessToken_mem env uid w1 of
                     (None, w2) \<Rightarrow>
                       (Inl (Error ''Failed to refresh access token. Please re-authenticate.''), w2)
                   | (Some refreshedTokenData, w2) \<Rightarrow>
                       (case makeRequest env method endpoint data
                               (accessToken refreshedTokenData)
                               (instanceUrl refreshedTokenData) w2 of
                          (Inr resp, w3) \<Rightarrow> (Inr resp, w3)
                        | (Inl retryError, w3) \<Rightarrow> (Inl (Axios retryError), w3)))
                else (Inl (Axios err), w1)))"

section \<open>routes/salesforceAuth.ts with state-keyed sessions\<close>

definition OAUTH_EXPIRY_BUFFER :: int where
  "OAUTH_EXPIRY_BUFFER = 5 * 60 * 1000"

definition tenMinutes :: int where
  "tenMinutes = 10 * 60 * 1000"

text \<open>
  \<open>Object.entries(sessionStore).forEach\<close> visits every own entry once and deletes
  the ones whose age exceeds ten minutes; on the map this is a filter.
\<close>

definition cleanupExpiredSessions :: "env \<Rightarrow> world \<Rightarrow> world" where
  "cleanupExpiredSessions env w =
     (let now = Date_now env w
      in w\<lparr>sessionStore := (\<lambda>state.
            case sessionStore w state of
              None \<Rightarrow> None
            | Some s \<Rightarrow> if now - session.timestamp s > tenMinutes then None else Some s)\<rparr>)"

text \<open>
  \<open>GET /initiate\<close>. The redirect goes to the provider's authorize URL; of its query
  parameters the model keeps the \<open>state\<close>.
\<close>

definition initiate :: "env \<Rightarrow> string option \<Rightarrow> world \<Rightarrow> http_response \<times> world" where
  "initiate env query_userId w =
     (if \<not> truthy query_userId then (Json 400 ''Missing userId'', w)
      else
        (case randomBytes env 16 w of
           (bytes, w1) \<Rightarrow>
             (let state = toHex bytes
              in (Redirect state,
                  w1\<lparr>sessionStore := js_set (sessionStore w1) state
                        \<lparr>userId = js_str query_userId, timestamp = Date_now env w1\<rparr>\<rparr>))))"

text \<open>
  \<open>GET /callback\<close> in two parts: the checks up to the consumption of the session
  (which yield either a response or the \<open>userId\<close> read from the session, \<open>undefined\<close>
  when the value found is an inherited member), and the token exchange.
\<close>

definition callback_session :: "string option \<Rightarrow> string option \<Rightarrow> string option \<Rightarrow> world \<Rightarrow> (http_response + string option) \<times> world" where
  "callback_session code state err w =
     (if truthy err then (Inl (Json 400 ''Salesforce OAuth error''), w)
      else if \<not> truthy code \<or> \<not> truthy state then (Inl (Json 400 ''Missing code or state''), w)
      else
        (case js_get (sessionStore w) (js_str state) of
           Undefined \<Rightarrow> (Inl (Json 400 ''Invalid or expired state''), w)
         | Inherited \<Rightarrow>
             (Inr None, w\<lparr>sessionStore := js_delete (sessionStore w) (js_str state)\<rparr>)
         | Own s \<Rightarrow>
             (Inr (Some (userId s)),
              w\<lparr>sessionStore := js_delete (sessionStore w) (js_str state)\<rparr>)))"

definition callback_exchange :: "env \<Rightarrow> string option \<Rightarrow> string option \<Rightarrow> world \<Rightarrow> http_response \<times> world" where
  "callback_exchange env uid code w =
     (case axios_post_token env (AuthorizationCode (js_str code)) w of
        (Inl err, w1) \<Rightarrow>
          (Json (case err of HttpStatus n \<Rightarrow> if n = 0 then 500 else n | NoResponse \<Rightarrow> 500)
                ''Token exchange failed'', w1)
      | (Inr data, w1) \<Rightarrow>
          if \<not> truthy (access_token data) \<or> \<not> truthy (instance_url data) then
            (Json 500 ''Callback error'', w1)
          else
            (let expAt = Date_now env w1 + parseInt_expires_in (expires_in data) * 1000
                           - OAUTH_EXPIRY_BUFFER
             in (Json 200 ''Salesforce connected successfully'',
                 w1\<lparr>tokenStore := js_set (tokenStore w1) (js_str uid)
                       \<lparr>accessToken = access_token data,
                        refreshToken = refresh_token data,
                        instanceUrl = instance_url data,
                        expiresAt = expAt\<rparr>\<rparr>)))"

definition callback :: "env \<Rightarrow> string option \<Rightarrow> string option \<Rightarrow> string option \<Rightarrow> world \<Rightarrow> http_response \<times> world" where
  "callback env code state err w =
     (case callback_session code state err w of
        (Inl response, w1) \<Rightarrow> (response, w1)
      | (Inr uid, w1) \<Rightarrow> callback_exchange env uid code w1)"

text \<open>
  \<open>POST /disconnect\<close>. The loop over \<open>Object.keys(sessionStore)\<close> deletes every own
  entry bound to the user.
\<close>

definition disconnect :: "string option \<Rightarrow> world \<Rightarrow> http_response \<times> world" where
  "disconnect query_userId w =
     (if \<not> truthy query_userId then (Json 400 ''Missing userId'', w)
      else
        (Json 200 ''Disconnected from Salesforce'',
         w\<lparr>tokenStore := js_delete (tokenStore w) (js_str query_userId),
           sessionStore := (\<lambda>state.
             case sessionStore w state of
               None \<Rightarrow> None
             | Some s \<Rightarrow> if userId s = js_str query_userId then None else Some s)\<rparr>))"

section \<open>Observations on the trace\<close>

fun api_requests :: "event list \<Rightarrow> api_request list" where
  "api_requests [] = []"
| "api_requests (ApiRequest r # es) = r # api_requests es"
| "api_requests (RefreshCall u # es) = api_requests es"
| "api_requests (TokenPost g # es) = api_requests es"

fun refresh_calls :: "event list \<Rightarrow> string list" where
  "refresh_calls [] = []"
| "refresh_calls (RefreshCall u # es) = u # refresh_calls es"
| "refresh_calls (ApiRequest r # es) = refresh_calls es"
| "refresh_calls (TokenPost g # es) = refresh_calls es"

definition new_events :: "world \<Rightarrow> world \<Rightarrow> event list" where
  "new_events w w' = drop (length (trace w)) (trace w')"

section \<open>Concrete scenarios\<close>

text \<open>
  The environments and worlds at which the theorems below are instantiated. In
  \<open>env_steady\<close> the clock stands at 1000000 ms, Redis is connected, the provider
  exchanges every authorization code for the tokens \<open>A1\<close> and \<open>R1\<close>, answers every
  refresh with the access token \<open>A2\<close>, valid for one hour, and no new refresh token,
  the API answers every call, and the random bytes drawn at step \<open>t\<close> are all equal
  to \<open>t\<close>.
\<close>

definition w_empty :: world where
  "w_empty = \<lparr>tick = 0, trace = [], redis = Map.empty, liveTokenStore = Map.empty,
              sessionStore = Map.empty, tokenStore = Map.empty\<rparr>"

definition tok1 :: TokenData where
  "tok1 = \<lparr>accessToken = Some ''A1'', refreshToken = Some ''R1'',
           instanceUrl = Some ''https://x'', expiresAt = 5000000\<rparr>"

definition tok_near :: TokenData where
  "tok_near = \<lparr>accessToken = Some ''A1'', refreshToken = Some ''R1'',
               instanceUrl = Some ''https://x'', expiresAt = 1010000\<rparr>"

definition live1 :: LiveTokenData where
  "live1 = \<lparr>accessToken = Some ''A1'', refreshToken = Some ''R1'',
            instanceUrl = Some ''https://x'', LiveTokenData.timestamp = 0\<rparr>"

definition resp1 :: token_response where
  "resp1 = \<lparr>access_token = Some ''A2'', refresh_token = None, instance_url = None,
            expires_in = Some 3600\<rparr>"

definition resp_code :: token_response where
  "resp_code = \<lparr>access_token = Some ''A1'', refresh_token = Some ''R1'',
                instance_url = Some ''https://x'', expires_in = Some 3600\<rparr>"

definition env_steady :: env where
  "env_steady = \<lparr>date_now = (\<lambda>t. 1000000), redis_ready = (\<lambda>t. True),
                 random_byte = (\<lambda>t i. of_nat t),
                 token_endpoint = (\<lambda>t g. case g of
                     AuthorizationCode c \<Rightarrow> Inr resp_code
                   | RefreshGrant r \<Rightarrow> Inr resp1),
                 salesforce_api = (\<lambda>t r. Inr ''ok'')\<rparr>"

definition env_redis_late :: env where
  "env_redis_late = env_steady\<lparr>redis_ready := (\<lambda>t. 1 \<le> t)\<rparr>"

definition env_provider_down :: env where
  "env_provider_down = env_steady\<lparr>token_endpoint := (\<lambda>t g. Inl (HttpStatus 400))\<rparr>"

definition env_revoked :: env where
  "env_revoked = env_steady\<lparr>salesforce_api := (\<lambda>t r. Inl (HttpStatus 401))\<rparr>"

definition env_revoked_down :: env where
  "env_revoked_down = env_provider_down\<lparr>salesforce_api := (\<lambda>t r. Inl (HttpStatus 401))\<rparr>"

definition env_late :: env where
  "env_late = env_steady\<lparr>date_now := (\<lambda>t. if t \<le> 1 then 0 else 660000)\<rparr>"

definition w_redis_u1 :: world where
  "w_redis_u1 = w_empty\<lparr>redis := [token_key ''u1'' \<mapsto> \<lparr>payload = tok1, deadline = 5000000\<rparr>]\<rparr>"

definition w_redis_near :: world where
  "w_redis_near = w_empty\<lparr>redis := [token_key ''u1'' \<mapsto> \<lparr>payload = tok_near, deadline = 1010000\<rparr>]\<rparr>"

definition w_live_u1 :: world where
  "w_live_u1 = w_empty\<lparr>liveTokenStore := [''u1'' \<mapsto> live1]\<rparr>"

definition state0 :: string where
  "state0 = ''00000000000000000000000000000000''"

definition state1 :: string where
  "state1 = ''01010101010101010101010101010101''"

definition w_one :: world where
  "w_one = snd (initiate env_steady (Some ''u1'') w_empty)"

definition w_two :: world where
  "w_two = snd (initiate env_steady (Some ''u1'') w_one)"

definition w_stale :: world where
  "w_stale = step (snd (initiate env_late (Some ''u1'') w_empty))"

definition w_connected :: world where
  "w_connected = w_redis_u1\<lparr>tokenStore := [''u1'' \<mapsto> tok1, ''u2'' \<mapsto> tok1],
       sessionStore := [state0 \<mapsto> \<lparr>userId = ''u1'', timestamp = 0\<rparr>,
                        state1 \<mapsto> \<lparr>userId = ''u2'', timestamp = 0\<rparr>]\<rparr>"

lemmas scenario_defs =
  w_empty_def tok1_def tok_near_def live1_def resp1_def resp_code_def env_steady_def env_redis_late_def
  env_provider_down_def env_revoked_def env_revoked_down_def env_late_def w_redis_u1_def
  w_redis_near_def w_live_u1_def state0_def state1_def w_connected_def

lemmas prim_defs =
  step_def emit_def Date_now_def isRedisConnected_def redis_set_def redis_get_def redis_del_def
  axios_post_token_def axios_request_def makeRequest_def

lemmas js_defs =
  truthy_def js_str_def js_or_def parseInt_expires_in_def js_get_def js_set_def js_delete_def
  field_def token_key_def REDIS_PREFIX_def

lemmas hex_defs =
  randomBytes_def toHex_def hex_byte_def hexdigits_def upt_conv_Cons

section \<open>Auxiliary facts\<close>

subsection \<open>Trace observations\<close>

lemma api_requests_append: "api_requests (xs @ ys) = api_requests xs @ api_requests ys"
  by (induction xs rule: api_requests.induct) simp_all

lemma refresh_calls_append: "refresh_calls (xs @ ys) = refresh_calls xs @ refresh_calls ys"
  by (induction xs rule: refresh_calls.induct) simp_all

subsection \<open>What each primitive and store operation touches\<close>

lemma getTokenData_frame:
  "trace (snd (getTokenData env uid w)) = trace w"
  "redis (snd (getTokenData env uid w)) = redis w"
  "tokenStore (snd (getTokenData env uid w)) = tokenStore w"
  "liveTokenStore (snd (getTokenData env uid w)) = liveTokenStore w"
  "sessionStore (snd (getTokenData env uid w)) = sessionStore w"
  by (simp_all add: getTokenData_def prim_defs split: option.splits)

lemma getTokenData_emit:
  "fst (getTokenData env uid (emit e w)) = fst (getTokenData env uid w)"
  by (simp add: getTokenData_def prim_defs split: option.splits)

lemma getTokenData_pair:
  "getTokenData env uid w = (r, w1) \<Longrightarrow>
     trace w1 = trace w \<and> redis w1 = redis w \<and> tokenStore w1 = tokenStore w
     \<and> liveTokenStore w1 = liveTokenStore w \<and> sessionStore w1 = sessionStore w"
  using getTokenData_frame [of env uid w] by simp

lemma setTokenData_frame:
  "trace (snd (setTokenData env uid t w)) = trace w"
  "tokenStore (snd (setTokenData env uid t w)) = tokenStore w"
  "liveTokenStore (snd (setTokenData env uid t w)) = liveTokenStore w"
  "sessionStore (snd (setTokenData env uid t w)) = sessionStore w"
  by (simp_all add: setTokenData_def prim_defs Let_def)

lemma setTokenData_error:
  "fst (setTokenData env uid t w) = Inl e \<Longrightarrow> redis (snd (setTokenData env uid t w)) = redis w"
  by (simp add: setTokenData_def prim_defs Let_def split: if_splits)

lemma setTokenData_redis:
  "redis (snd (setTokenData env uid t w)) = redis w
   \<or> redis (snd (setTokenData env uid t w))
       = (redis w)(token_key uid \<mapsto> \<lparr>payload = t, deadline = expiresAt t\<rparr>)"
  by (simp add: setTokenData_def prim_defs Let_def)

lemma setTokenData_pair:
  "setTokenData env uid t w = (r, w1) \<Longrightarrow>
     trace w1 = trace w \<and> tokenStore w1 = tokenStore w
     \<and> liveTokenStore w1 = liveTokenStore w \<and> sessionStore w1 = sessionStore w
     \<and> (isl r \<longrightarrow> redis w1 = redis w)
     \<and> (redis w1 = redis w
        \<or> redis w1 = (redis w)(token_key uid \<mapsto> \<lparr>payload = t, deadline = expiresAt t\<rparr>))"
  using setTokenData_frame [of env uid t w] setTokenData_redis [of env uid t w]
    setTokenData_error [of env uid t w]
  by (cases r) auto

lemma axios_post_token_pair:
  "axios_post_token env g w = (r, w1) \<Longrightarrow>
     trace w1 = trace w @ [TokenPost g] \<and> redis w1 = redis w \<and> tokenStore w1 = tokenStore w
     \<and> liveTokenStore w1 = liveTokenStore w \<and> sessionStore w1 = sessionStore w
     \<and> r = token_endpoint env (tick w) g"
  by (auto simp: prim_defs)

lemma makeRequest_pair:
  "makeRequest env m ep d tok inst w = (r, w1) \<Longrightarrow>
     trace w1 = trace w @ [ApiRequest \<lparr>req_method = m, req_url = js_str inst @ ep,
        req_authorization = ''Bearer '' @ js_str tok, req_data = d\<rparr>]"
  by (auto simp: prim_defs)

subsection \<open>The two refresh functions\<close>

lemma refresh_none_frame:
  assumes "refreshAccessToken env uid w = (None, w')"
  shows "redis w' = redis w \<and> tokenStore w' = tokenStore w"
  using assms unfolding refreshAccessToken_def
  by (auto split: prod.splits option.splits sum.splits if_splits simp: Let_def emit_def
      dest!: getTokenData_pair setTokenData_pair axios_post_token_pair)

lemma refresh_trace:
  assumes "refreshAccessToken env uid w = (r, w')"
  shows "\<exists>evs. trace w' = trace w @ RefreshCall uid # evs
            \<and> api_requests evs = [] \<and> refresh_calls evs = []"
  using assms unfolding refreshAccessToken_def
  by (auto split: prod.splits option.splits sum.splits if_splits simp: Let_def emit_def
      dest!: getTokenData_pair setTokenData_pair axios_post_token_pair)

lemma refresh_some:
  assumes "refreshAccessToken env uid w = (Some new, w')"
  shows "\<exists>old w1 data w2.
           getTokenData env uid (emit (RefreshCall uid) w) = (Some old, w1)
         \<and> truthy (refreshToken old)
         \<and> axios_post_token env (RefreshGrant (js_str (refreshToken old))) w1 = (Inr data, w2)
         \<and> new = \<lparr>accessToken = access_token data,
                   refreshToken = js_or (refresh_token data) (refreshToken old),
                   instanceUrl = js_or (instance_url data) (instanceUrl old),
                   expiresAt = Date_now env w2 + parseInt_expires_in (expires_in data) * 1000\<rparr>
         \<and> w' = snd (setTokenData env uid new w2)"
  using assms unfolding refreshAccessToken_def
  by (auto split: prod.splits option.splits sum.splits if_splits simp: Let_def)

lemma refresh_mem_trace:
  assumes "refreshAccessToken_mem env uid w = (r, w')"
  shows "\<exists>evs. trace w' = trace w @ RefreshCall uid # evs
            \<and> api_requests evs = [] \<and> refresh_calls evs = []"
  using assms unfolding refreshAccessToken_mem_def
  by (auto split: prod.splits option.splits sum.splits if_splits simp: Let_def emit_def
      dest!: axios_post_token_pair)

subsection \<open>Hexadecimal states\<close>

lemma distinct_hexdigits: "distinct hexdigits"
  by (simp add: hexdigits_def)

lemma length_hexdigits: "length hexdigits = 16"
  by (simp add: hexdigits_def)

lemma hexdigit_inj: "a < 16 \<Longrightarrow> b < 16 \<Longrightarrow> hexdigits ! a = hexdigits ! b \<Longrightarrow> a = b"
  using distinct_hexdigits length_hexdigits by (simp add: nth_eq_iff_index_eq)

lemma unat_byte_less: "unat (b :: 8 word) < 256"
  using unsigned_less [of b, where ?'a = nat] by simp

lemma hex_byte_inj:
  assumes h: "hex_byte b = hex_byte c"
  shows "b = c"
proof -
  have lb: "unat b div 16 < 16" "unat b mod 16 < 16"
    using unat_byte_less [of b] by auto
  have lc: "unat c div 16 < 16" "unat c mod 16 < 16"
    using unat_byte_less [of c] by auto
  from h have "hexdigits ! (unat b div 16) = hexdigits ! (unat c div 16)"
    and "hexdigits ! (unat b mod 16) = hexdigits ! (unat c mod 16)"
    by (simp_all add: hex_byte_def)
  then have "unat b div 16 = unat c div 16" and "unat b mod 16 = unat c mod 16"
    using lb lc hexdigit_inj by blast+
  then have "unat b = unat c"
    by (metis div_mult_mod_eq)
  then show "b = c"
    by (simp add: word_unat_eq_iff)
qed

lemma length_hex_byte: "length (hex_byte b) = 2"
  by (simp add: hex_byte_def)

lemma length_toHex: "length (toHex bs) = 2 * length bs"
  by (induction bs) (simp_all add: toHex_def length_hex_byte)

lemma toHex_inj: "length bs = length cs \<Longrightarrow> toHex bs = toHex cs \<Longrightarrow> bs = cs"
proof (induction bs cs rule: list_induct2)
  case Nil
  then show ?case by simp
next
  case (Cons b bs c cs)
  from Cons.prems have "hex_byte b @ toHex bs = hex_byte c @ toHex cs"
    by (simp add: toHex_def)
  then have "hex_byte b = hex_byte c" and "toHex bs = toHex cs"
    by (simp_all add: length_hex_byte)
  then show ?case
    using Cons.IH hex_byte_inj by simp
qed

lemma prototype_name_short: "s \<in> set Object_prototype_names \<Longrightarrow> length s \<le> 20"
  by (auto simp: Object_prototype_names_def)

lemma state_not_inherited: "length bs = 16 \<Longrightarrow> toHex bs \<notin> set Object_prototype_names"
  using prototype_name_short [of "toHex bs"] by (auto simp: length_toHex)

lemma state_not_proto: "length bs = 16 \<Longrightarrow> toHex bs \<noteq> ''__proto__''"
  using length_toHex [of bs] by auto

lemma state_nonempty: "length bs = 16 \<Longrightarrow> toHex bs \<noteq> []"
  using length_toHex [of bs] by auto

lemma length_randomBytes: "length (fst (randomBytes env n w)) = n"
  by (simp add: randomBytes_def)

subsection \<open>The auth handlers\<close>

lemma initiate_result:
  assumes "truthy query_userId"
  shows "initiate env query_userId w =
           (Redirect (toHex (fst (randomBytes env 16 w))),
            (step w)\<lparr>sessionStore := (sessionStore w)(toHex (fst (randomBytes env 16 w)) \<mapsto>
                \<lparr>userId = js_str query_userId, timestamp = Date_now env (step w)\<rparr>)\<rparr>)"
  using assms state_not_proto [of "fst (randomBytes env 16 w)"] length_randomBytes [of env 16 w]
  by (simp add: initiate_def Let_def js_set_def randomBytes_def step_def split: prod.splits)

lemma callback_session_own:
  assumes "sessionStore w S = Some e" and "truthy code" and "S \<noteq> []"
  shows "callback_session code (Some S) None w =
           (Inr (Some (userId e)), w\<lparr>sessionStore := (sessionStore w)(S := None)\<rparr>)"
  using assms by (simp add: callback_session_def js_defs)

lemma callback_session_absent:
  assumes "sessionStore w S = None" and "S \<notin> set Object_prototype_names"
    and "truthy code" and "S \<noteq> []"
  shows "callback_session code (Some S) None w = (Inl (Json 400 ''Invalid or expired state''), w)"
  using assms by (simp add: callback_session_def js_defs)

section \<open>The authenticated client\<close>

text \<open>
  C1 (amended). In the live routes that retry after a \<open>401\<close> (the in-memory variant):
  for every call that finds a stored record and whose first outbound request is
  answered with \<open>401\<close>, the client enters \<open>refreshAccessToken\<close> exactly once. If
  that refresh returns no record, the call fails with "Failed to refresh access
  token" and the request is not reissued (one outbound request in total). If it
  returns a record, the request is reissued exactly once with it (two outbound
  requests in total) and the outcome of the retry is the outcome of the call: an
  error of the retry, a second \<open>401\<close> included, is thrown as it is. No third request
  is ever sent.
\<close>

theorem c1_single_refresh_and_retry:
  assumes stored: "js_get (liveTokenStore w) uid \<noteq> Undefined"
      and first: "makeRequest env method endpoint data
                    (field accessToken (js_get (liveTokenStore w) uid))
                    (field instanceUrl (js_get (liveTokenStore w) uid)) w
                  = (Inl (HttpStatus 401), w1)"
      and refr: "refreshAccessToken_mem env uid w1 = (r, w2)"
      and call: "makeSalesforceApiCall_mem env uid endpoint method data w = (res, w')"
  shows "refresh_calls (new_events w w') = [uid]
       \<and> length (api_requests (new_events w w')) = (if r = None then 1 else 2)
       \<and> (r = None \<longrightarrow>
            res = Inl (Error ''Failed to refresh access token. Please re-authenticate.''))
       \<and> (\<forall>refreshed. r = Some refreshed \<longrightarrow>
            res = (case fst (makeRequest env method endpoint data
                               (accessToken refreshed) (instanceUrl refreshed) w2) of
                     Inl retryError \<Rightarrow> Inl (Axios retryError)
                   | Inr resp \<Rightarrow> Inr resp))"
proof -
  from refresh_mem_trace [OF refr] obtain evs where
    t2: "trace w2 = trace w1 @ RefreshCall uid # evs" and
    na: "api_requests evs = []" and nr: "refresh_calls evs = []"
    by blast
  note t1 = makeRequest_pair [OF first]
  show ?thesis
  proof (cases r)
    case None
    then have "res = Inl (Error ''Failed to refresh access token. Please re-authenticate.'')"
      and "w' = w2"
      using stored first refr call by (simp_all add: makeSalesforceApiCall_mem_def Let_def)
    then show ?thesis
      using None t1 t2 na nr
      by (simp add: new_events_def api_requests_append refresh_calls_append)
  next
    case (Some refreshed)
    obtain rr w3 where retry: "makeRequest env method endpoint data
        (accessToken refreshed) (instanceUrl refreshed) w2 = (rr, w3)"
      by (cases "makeRequest env method endpoint data
                   (accessToken refreshed) (instanceUrl refreshed) w2")
    then have "res = (case rr of Inl retryError \<Rightarrow> Inl (Axios retryError) | Inr resp \<Rightarrow> Inr resp)"
      and "w' = w3"
      using stored first refr call Some
      by (auto simp add: makeSalesforceApiCall_mem_def Let_def split: sum.splits)
    then show ?thesis
      using Some t1 t2 na nr makeRequest_pair [OF retry] retry
      by (simp add: new_events_def api_requests_append refresh_calls_append)
  qed
qed

text \<open>
  The theorem at a revoked credential: the API answers \<open>401\<close> to everything, the
  provider still refreshes. One refresh, two requests, and the call fails with the
  second \<open>401\<close>.
\<close>

theorem c1_witness:
  "js_get (liveTokenStore w_live_u1) ''u1'' \<noteq> Undefined
   \<and> fst (makeRequest env_revoked GET ''/services/oauth2/userinfo'' None
            (Some ''A1'') (Some ''https://x'') w_live_u1) = Inl (HttpStatus 401)
   \<and> refresh_calls (new_events w_live_u1
        (snd (makeSalesforceApiCall_mem env_revoked ''u1'' ''/services/oauth2/userinfo'' GET None
               w_live_u1))) = [''u1'']
   \<and> length (api_requests (new_events w_live_u1
        (snd (makeSalesforceApiCall_mem env_revoked ''u1'' ''/services/oauth2/userinfo'' GET None
               w_live_u1)))) = 2
   \<and> fst (makeSalesforceApiCall_mem env_revoked ''u1'' ''/services/oauth2/userinfo'' GET None
            w_live_u1) = Inl (Axios (HttpStatus 401))"
proof -
  let ?rq = "makeRequest env_revoked GET ''/services/oauth2/userinfo'' None
               (field accessToken (js_get (liveTokenStore w_live_u1) ''u1''))
               (field instanceUrl (js_get (liveTokenStore w_live_u1) ''u1'')) w_live_u1"
  let ?rf = "refreshAccessToken_mem env_revoked ''u1'' (snd ?rq)"
  let ?call = "makeSalesforceApiCall_mem env_revoked ''u1'' ''/services/oauth2/userinfo'' GET None
                 w_live_u1"
  have stored: "js_get (liveTokenStore w_live_u1) ''u1'' \<noteq> Undefined"
    by (simp add: scenario_defs js_defs)
  have first: "?rq = (Inl (HttpStatus 401), snd ?rq)"
    by (simp add: scenario_defs js_defs prim_defs)
  have refr: "?rf = (fst ?rf, snd ?rf)" and call: "?call = (fst ?call, snd ?call)"
    by simp_all
  have some: "fst ?rf = Some \<lparr>accessToken = Some ''A2'', refreshToken = Some ''R1'',
      instanceUrl = Some ''https://x'', LiveTokenData.timestamp = 1000000\<rparr>"
    by (simp add: scenario_defs js_defs prim_defs refreshAccessToken_mem_def Let_def)
  have retry: "fst (makeRequest env_revoked GET ''/services/oauth2/userinfo'' None
                 (Some ''A2'') (Some ''https://x'') (snd ?rf)) = Inl (HttpStatus 401)"
    by (simp add: scenario_defs prim_defs)
  have rq1: "fst (makeRequest env_revoked GET ''/services/oauth2/userinfo'' None
            (Some ''A1'') (Some ''https://x'') w_live_u1) = Inl (HttpStatus 401)"
    by (simp add: scenario_defs prim_defs)
  from c1_single_refresh_and_retry [OF stored first refr call] some retry
  have "refresh_calls (new_events w_live_u1 (snd ?call)) = [''u1'']
      \<and> length (api_requests (new_events w_live_u1 (snd ?call))) = 2
      \<and> fst ?call = Inl (Axios (HttpStatus 401))"
    by simp
  then show ?thesis
    using stored rq1 by simp
qed

text \<open>
  The claim as stated fails where the refresh itself fails: the first request is
  answered with \<open>401\<close>, the provider rejects the refresh, and the call ends after a
  single outbound request with the refresh error.
\<close>

theorem c1_counterexample:
  "fst (makeRequest env_revoked_down GET ''/services/oauth2/userinfo'' None
          (Some ''A1'') (Some ''https://x'') w_live_u1) = Inl (HttpStatus 401)
   \<and> trace (snd (makeSalesforceApiCall_mem env_revoked_down ''u1'' ''/services/oauth2/userinfo''
                   GET None w_live_u1))
       = [ApiRequest \<lparr>req_method = GET, req_url = ''https://x/services/oauth2/userinfo'',
                      req_authorization = ''Bearer A1'', req_data = None\<rparr>,
          RefreshCall ''u1'', TokenPost (RefreshGrant ''R1'')]
   \<and> fst (makeSalesforceApiCall_mem env_revoked_down ''u1'' ''/services/oauth2/userinfo''
            GET None w_live_u1)
       = Inl (Error ''Failed to refresh access token. Please re-authenticate.'')"
  by (simp add: scenario_defs js_defs prim_defs makeSalesforceApiCall_mem_def
      refreshAccessToken_mem_def Let_def)

text \<open>
  C2. In the live routes on the Redis token store: whenever the stored record's
  \<open>expiresAt\<close> is less than 30 seconds ahead of the clock, the first thing the call
  does after reading the record is to enter \<open>refreshAccessToken\<close>; the only outbound
  API request of the call, if any, comes after it and is built from the access token
  and the instance URL of the record the refresh returned (no request is sent when
  the refresh returns none).
\<close>

theorem c2_proactive_refresh:
  assumes stored: "getTokenData env uid w = (Some tokenData, w1)"
      and near: "expiresAt tokenData < Date_now env w1 + 30000"
  shows "\<exists>evs. new_events w (snd (makeSalesforceApiCall env uid endpoint method data w))
                 = RefreshCall uid # evs
           \<and> api_requests evs =
               (case fst (refreshAccessToken env uid w1) of
                  None \<Rightarrow> []
                | Some refreshed \<Rightarrow>
                    [\<lparr>req_method = method,
                      req_url = js_str (instanceUrl refreshed) @ endpoint,
                      req_authorization = ''Bearer '' @ js_str (accessToken refreshed),
                      req_data = data\<rparr>])"
proof -
  obtain r w2 where rf: "refreshAccessToken env uid w1 = (r, w2)"
    by (cases "refreshAccessToken env uid w1")
  from refresh_trace [OF rf] obtain evs where
    tr: "trace w2 = trace w1 @ RefreshCall uid # evs" and na: "api_requests evs = []"
    by blast
  have t1: "trace w1 = trace w"
    using getTokenData_pair [OF stored] by simp
  show ?thesis
  proof (cases r)
    case None
    then have "snd (makeSalesforceApiCall env uid endpoint method data w) = w2"
      using stored near rf by (simp add: makeSalesforceApiCall_def)
    then show ?thesis
      using tr na t1 rf None by (simp add: new_events_def)
  next
    case (Some refreshed)
    then have "trace (snd (makeSalesforceApiCall env uid endpoint method data w))
        = trace w2 @ [ApiRequest \<lparr>req_method = method,
                      req_url = js_str (instanceUrl refreshed) @ endpoint,
                      req_authorization = ''Bearer '' @ js_str (accessToken refreshed),
                      req_data = data\<rparr>]"
      using stored near rf
      by (simp add: makeSalesforceApiCall_def prim_defs split: sum.splits)
    then show ?thesis
      using tr na t1 rf Some by (simp add: new_events_def api_requests_append)
  qed
qed

text \<open>
  The theorem at a record that expires 10 seconds from now: the refresh runs first and
  the request carries the refreshed access token \<open>A2\<close>.
\<close>

theorem c2_witness:
  "getTokenData env_steady ''u1'' w_redis_near = (Some tok_near, step w_redis_near)
   \<and> expiresAt tok_near = Date_now env_steady (step w_redis_near) + 10000
   \<and> (\<exists>evs. new_events w_redis_near
               (snd (makeSalesforceApiCall env_steady ''u1'' ''/services/oauth2/userinfo'' GET None
                      w_redis_near)) = RefreshCall ''u1'' # evs
          \<and> api_requests evs =
              [\<lparr>req_method = GET, req_url = ''https://x/services/oauth2/userinfo'',
                req_authorization = ''Bearer A2'', req_data = None\<rparr>])"
proof -
  have stored: "getTokenData env_steady ''u1'' w_redis_near = (Some tok_near, step w_redis_near)"
    by (simp add: scenario_defs js_defs prim_defs getTokenData_def)
  have at: "expiresAt tok_near = Date_now env_steady (step w_redis_near) + 10000"
    by (simp add: scenario_defs prim_defs)
  then have near: "expiresAt tok_near < Date_now env_steady (step w_redis_near) + 30000"
    by simp
  have rf: "fst (refreshAccessToken env_steady ''u1'' (step w_redis_near))
      = Some \<lparr>accessToken = Some ''A2'', refreshToken = Some ''R1'',
              instanceUrl = Some ''https://x'', expiresAt = 4600000\<rparr>"
    by (simp add: scenario_defs js_defs prim_defs refreshAccessToken_def getTokenData_def
        setTokenData_def Let_def)
  from c2_proactive_refresh [OF stored near, of "''/services/oauth2/userinfo''" GET None] rf
  show ?thesis
    using stored at by (simp add: js_defs)
qed

section \<open>Authorization sessions\<close>

text \<open>
  C3. For every user, two \<open>initiate\<close> calls whose random draws differ leave two
  entries in the session store, under two distinct states, both bound to that user;
  neither call overwrites the entry of the other, and the callback consumes either
  state, yielding the user, while the other state stays and is consumed by a later
  callback, in both orders. (A handler runs without interruption up to its first
  wait for I/O and \<open>initiate\<close> has none, so two concurrent calls take effect one
  after the other.)
\<close>

theorem c3_two_flows_do_not_clobber:
  assumes uid: "truthy query_userId"
      and i1: "initiate env query_userId w = (Redirect s1, w1)"
      and i2: "initiate env query_userId w1 = (Redirect s2, w2)"
      and draws: "fst (randomBytes env 16 w) \<noteq> fst (randomBytes env 16 w1)"
      and codes: "truthy code1" "truthy code2"
  shows "s1 \<noteq> s2
       \<and> (\<exists>t1. sessionStore w2 s1 = Some \<lparr>userId = js_str query_userId, timestamp = t1\<rparr>)
       \<and> (\<exists>t2. sessionStore w2 s2 = Some \<lparr>userId = js_str query_userId, timestamp = t2\<rparr>)
       \<and> (\<exists>w3 w4. callback_session code1 (Some s1) None w2
                     = (Inr (Some (js_str query_userId)), w3)
                 \<and> sessionStore w3 s2 = sessionStore w2 s2
                 \<and> callback_session code2 (Some s2) None w3
                     = (Inr (Some (js_str query_userId)), w4))
       \<and> (\<exists>w3 w4. callback_session code2 (Some s2) None w2
                     = (Inr (Some (js_str query_userId)), w3)
                 \<and> sessionStore w3 s1 = sessionStore w2 s1
                 \<and> callback_session code1 (Some s1) None w3
                     = (Inr (Some (js_str query_userId)), w4))"
proof -
  let ?b1 = "fst (randomBytes env 16 w)" and ?b2 = "fst (randomBytes env 16 w1)"
  let ?u = "js_str query_userId"
  have l1: "length ?b1 = 16" and l2: "length ?b2 = 16"
    by (simp_all add: length_randomBytes)
  from i1 have s1: "s1 = toHex ?b1"
    and w1: "w1 = (step w)\<lparr>sessionStore := (sessionStore w)(s1 \<mapsto>
                \<lparr>userId = ?u, timestamp = Date_now env (step w)\<rparr>)\<rparr>"
    by (auto simp: initiate_result [OF uid])
  from i2 have s2: "s2 = toHex ?b2"
    and w2: "w2 = (step w1)\<lparr>sessionStore := (sessionStore w1)(s2 \<mapsto>
                \<lparr>userId = ?u, timestamp = Date_now env (step w1)\<rparr>)\<rparr>"
    by (auto simp: initiate_result [OF uid])
  have ne: "s1 \<noteq> s2"
    using draws toHex_inj [of ?b1 ?b2] l1 l2 s1 s2 by auto
  have n1: "s1 \<noteq> []" and n2: "s2 \<noteq> []"
    using state_nonempty l1 l2 s1 s2 by auto
  have e1: "sessionStore w2 s1 = Some \<lparr>userId = ?u, timestamp = Date_now env (step w)\<rparr>"
    using ne by (simp add: w2 w1 step_def)
  have e2: "sessionStore w2 s2 = Some \<lparr>userId = ?u, timestamp = Date_now env (step w1)\<rparr>"
    by (simp add: w2 step_def)
  let ?w31 = "w2\<lparr>sessionStore := (sessionStore w2)(s1 := None)\<rparr>"
  let ?w32 = "w2\<lparr>sessionStore := (sessionStore w2)(s2 := None)\<rparr>"
  have a: "callback_session code1 (Some s1) None w2 = (Inr (Some ?u), ?w31)"
    using callback_session_own [OF e1 codes(1) n1] by simp
  have a': "callback_session code2 (Some s2) None ?w31
      = (Inr (Some ?u), ?w31\<lparr>sessionStore := (sessionStore ?w31)(s2 := None)\<rparr>)"
    using callback_session_own [of ?w31 s2 _ code2] e2 ne codes(2) n2 by simp
  have b: "callback_session code2 (Some s2) None w2 = (Inr (Some ?u), ?w32)"
    using callback_session_own [OF e2 codes(2) n2] by simp
  have b': "callback_session code1 (Some s1) None ?w32
      = (Inr (Some ?u), ?w32\<lparr>sessionStore := (sessionStore ?w32)(s1 := None)\<rparr>)"
    using callback_session_own [of ?w32 s1 _ code1] e1 ne codes(1) n1 by simp
  show ?thesis
    using ne e1 e2 a a' b b' by auto
qed

lemma w_one_eval:
  "initiate env_steady (Some ''u1'') w_empty = (Redirect state0, w_one)"
  "w_one = \<lparr>tick = 1, trace = [], redis = Map.empty, liveTokenStore = Map.empty,
            sessionStore = [state0 \<mapsto> \<lparr>userId = ''u1'', timestamp = 1000000\<rparr>],
            tokenStore = Map.empty\<rparr>"
  by (simp_all add: w_one_def scenario_defs js_defs prim_defs hex_defs initiate_def Let_def)

lemma w_two_eval:
  "initiate env_steady (Some ''u1'') w_one = (Redirect state1, w_two)"
  "w_two = \<lparr>tick = 2, trace = [], redis = Map.empty, liveTokenStore = Map.empty,
            sessionStore = [state0 \<mapsto> \<lparr>userId = ''u1'', timestamp = 1000000\<rparr>,
                            state1 \<mapsto> \<lparr>userId = ''u1'', timestamp = 1000000\<rparr>],
            tokenStore = Map.empty\<rparr>"
  by (simp_all add: w_two_def w_one_eval(2) scenario_defs js_defs prim_defs hex_defs initiate_def
      Let_def)

text \<open>
  The theorem at two flows of user \<open>u1\<close>: the draws at steps 0 and 1 differ, the
  states are \<open>state0\<close> and \<open>state1\<close>, and consuming the second leaves the first.
\<close>

theorem c3_witness:
  "truthy (Some ''u1'')
   \<and> fst (randomBytes env_steady 16 w_empty) \<noteq> fst (randomBytes env_steady 16 w_one)
   \<and> initiate env_steady (Some ''u1'') w_empty = (Redirect state0, w_one)
   \<and> initiate env_steady (Some ''u1'') w_one = (Redirect state1, w_two)
   \<and> state0 \<noteq> state1
   \<and> (\<exists>w3 w4. callback_session (Some ''abc'') (Some state1) None w_two = (Inr (Some ''u1''), w3)
         \<and> sessionStore w3 state0 = sessionStore w_two state0
         \<and> callback_session (Some ''def'') (Some state0) None w3 = (Inr (Some ''u1''), w4))"
proof -
  have uid: "truthy (Some ''u1'')" and c1: "truthy (Some ''def'')" and c2: "truthy (Some ''abc'')"
    by (simp_all add: js_defs)
  have draws: "fst (randomBytes env_steady 16 w_empty) \<noteq> fst (randomBytes env_steady 16 w_one)"
    by (simp add: w_one_eval(2) scenario_defs hex_defs)
  from c3_two_flows_do_not_clobber [OF uid w_one_eval(1) w_two_eval(1) draws c1 c2]
  show ?thesis
    using uid draws w_one_eval(1) w_two_eval(1) by (simp add: js_defs)
qed

text \<open>
  C4 (amended). For every state \<open>S\<close> created by \<open>initiate(userId)\<close>, the callback
  succeeds at most once: a call that finds the entry of \<open>S\<close> deletes it and yields the
  \<open>userId\<close> bound to it (right after \<open>initiate\<close>, the one given there), whatever the
  age of the entry; a call for a state that has no entry in the session store (never
  issued, already consumed, or removed by the sweep) and that is not the name of a
  member inherited from \<open>Object.prototype\<close>, which no issued state is, is answered
  with 400 "Invalid or expired state" and changes nothing. The ten-minute limit is
  enforced by the sweep alone: when it runs, it removes every entry older than ten
  minutes.
\<close>

theorem c4_single_consumption:
  assumes uid: "truthy query_userId"
      and issued: "initiate env query_userId w0 = (Redirect S, w1)"
      and code: "truthy code"
  shows "callback_session code (Some S) None w1
           = (Inr (Some (js_str query_userId)), w1\<lparr>sessionStore := (sessionStore w1)(S := None)\<rparr>)
       \<and> (\<forall>w e. sessionStore w S = Some e \<longrightarrow>
             callback_session code (Some S) None w
               = (Inr (Some (userId e)), w\<lparr>sessionStore := (sessionStore w)(S := None)\<rparr>))
       \<and> S \<notin> set Object_prototype_names \<and> S \<noteq> []
       \<and> (\<forall>env' w S'. sessionStore w S' = None \<and> S' \<notin> set Object_prototype_names \<and> S' \<noteq> [] \<longrightarrow>
             callback env' code (Some S') None w = (Json 400 ''Invalid or expired state'', w))
       \<and> (\<forall>env' w e. sessionStore w S = Some e \<and> tenMinutes < Date_now env' w - timestamp e \<longrightarrow>
             sessionStore (cleanupExpiredSessions env' w) S = None)"
proof -
  let ?b = "fst (randomBytes env 16 w0)"
  have len: "length ?b = 16"
    by (simp add: length_randomBytes)
  from issued have S: "S = toHex ?b"
    and w1: "w1 = (step w0)\<lparr>sessionStore := (sessionStore w0)(S \<mapsto>
                \<lparr>userId = js_str query_userId, timestamp = Date_now env (step w0)\<rparr>)\<rparr>"
    by (auto simp: initiate_result [OF uid])
  have ne: "S \<noteq> []" and ni: "S \<notin> set Object_prototype_names"
    using state_nonempty [OF len] state_not_inherited [OF len] S by simp_all
  have entry: "sessionStore w1 S
      = Some \<lparr>userId = js_str query_userId, timestamp = Date_now env (step w0)\<rparr>"
    by (simp add: w1 step_def)
  have first: "callback_session code (Some S) None w1
      = (Inr (Some (js_str query_userId)), w1\<lparr>sessionStore := (sessionStore w1)(S := None)\<rparr>)"
    using callback_session_own [OF entry code ne] by simp
  have found: "\<forall>w e. sessionStore w S = Some e \<longrightarrow>
      callback_session code (Some S) None w
        = (Inr (Some (userId e)), w\<lparr>sessionStore := (sessionStore w)(S := None)\<rparr>)"
    using callback_session_own [OF _ code ne] by blast
  have absent: "\<forall>env' w S'. sessionStore w S' = None \<and> S' \<notin> set Object_prototype_names \<and> S' \<noteq> [] \<longrightarrow>
      callback env' code (Some S') None w = (Json 400 ''Invalid or expired state'', w)"
    using callback_session_absent [OF _ _ code] by (simp add: callback_def)
  have sweep: "\<forall>env' w e. sessionStore w S = Some e \<and> tenMinutes < Date_now env' w - timestamp e \<longrightarrow>
      sessionStore (cleanupExpiredSessions env' w) S = None"
    by (simp add: cleanupExpiredSessions_def Let_def)
  show ?thesis
    using first found ne ni absent sweep by blast
qed

lemma w_stale_eval:
  "w_stale = \<lparr>tick = 2, trace = [], redis = Map.empty, liveTokenStore = Map.empty,
              sessionStore = [state0 \<mapsto> \<lparr>userId = ''u1'', timestamp = 0\<rparr>],
              tokenStore = Map.empty\<rparr>"
  by (simp add: w_stale_def scenario_defs js_defs prim_defs hex_defs initiate_def Let_def)

text \<open>
  The theorem at the flow of \<open>u1\<close>: the first callback consumes \<open>state0\<close> and yields
  \<open>u1\<close>, a second callback with the same state is refused, and a sweep that runs
  eleven minutes after \<open>initiate\<close> removes an entry that was never consumed.
\<close>

theorem c4_witness:
  "truthy (Some ''u1'') \<and> truthy (Some ''abc'')
   \<and> initiate env_steady (Some ''u1'') w_empty = (Redirect state0, w_one)
   \<and> callback_session (Some ''abc'') (Some state0) None w_one
       = (Inr (Some ''u1''), w_one\<lparr>sessionStore := (sessionStore w_one)(state0 := None)\<rparr>)
   \<and> callback env_steady (Some ''abc'') (Some state0) None
         (w_one\<lparr>sessionStore := (sessionStore w_one)(state0 := None)\<rparr>)
       = (Json 400 ''Invalid or expired state'',
          w_one\<lparr>sessionStore := (sessionStore w_one)(state0 := None)\<rparr>)
   \<and> sessionStore w_stale state0 = Some \<lparr>userId = ''u1'', timestamp = 0\<rparr>
   \<and> tenMinutes < Date_now env_late w_stale - 0
   \<and> sessionStore (cleanupExpiredSessions env_late w_stale) state0 = None"
proof -
  let ?w = "w_one\<lparr>sessionStore := (sessionStore w_one)(state0 := None)\<rparr>"
  have uid: "truthy (Some ''u1'')" and code: "truthy (Some ''abc'')"
    by (simp_all add: js_defs)
  have gone: "sessionStore ?w state0 = None"
    by simp
  have stale: "sessionStore w_stale state0 = Some \<lparr>userId = ''u1'', timestamp = 0\<rparr>"
    by (simp add: w_stale_eval)
  have old: "tenMinutes < Date_now env_late w_stale - 0"
    by (simp add: w_stale_eval scenario_defs prim_defs tenMinutes_def)
  note inst = c4_single_consumption [OF uid w_one_eval(1) code]
  from inst have first: "callback_session (Some ''abc'') (Some state0) None w_one
      = (Inr (Some ''u1''), ?w)"
    by (simp add: js_defs)
  from inst have ok: "state0 \<notin> set Object_prototype_names \<and> state0 \<noteq> []"
    by blast
  from inst have "\<forall>env' w S'. sessionStore w S' = None \<and> S' \<notin> set Object_prototype_names \<and> S' \<noteq> [] \<longrightarrow>
      callback env' (Some ''abc'') (Some S') None w = (Json 400 ''Invalid or expired state'', w)"
    by blast
  then have second: "callback env_steady (Some ''abc'') (Some state0) None ?w
      = (Json 400 ''Invalid or expired state'', ?w)"
    using gone ok by blast
  from inst have "\<forall>env' w e. sessionStore w state0 = Some e
        \<and> tenMinutes < Date_now env' w - timestamp e \<longrightarrow>
      sessionStore (cleanupExpiredSessions env' w) state0 = None"
    by blast
  then have swept: "sessionStore (cleanupExpiredSessions env_late w_stale) state0 = None"
    using stale old by force
  show ?thesis
    using uid code w_one_eval(1) first second stale old swept by blast
qed

text \<open>
  The claim as stated fails in two ways. An entry that is eleven minutes old and that
  no sweep has removed yet is still accepted: the callback answers 200. And a state
  that was never issued is accepted when it is the name of an inherited member, as
  \<open>constructor\<close> is: the lookup finds \<open>Object\<close>, the exchange runs, and the callback
  answers 200.
\<close>

theorem c4_counterexample:
  "sessionStore w_stale state0 = Some \<lparr>userId = ''u1'', timestamp = 0\<rparr>
   \<and> tenMinutes < Date_now env_late w_stale - 0
   \<and> fst (callback env_late (Some ''abc'') (Some state0) None w_stale)
       = Json 200 ''Salesforce connected successfully''
   \<and> sessionStore w_empty ''constructor'' = None
   \<and> fst (callback env_steady (Some ''abc'') (Some ''constructor'') None w_empty)
       = Json 200 ''Salesforce connected successfully''"
  by (simp add: w_stale_eval scenario_defs js_defs prim_defs tenMinutes_def callback_def
      callback_session_def callback_exchange_def Object_prototype_names_def Let_def)

section \<open>Token refresh and code exchange\<close>

text \<open>
  The code exchange of the callback takes the buffer off: given a lifetime of 3600
  seconds at time 1000000 it stores \<open>1000000 + 3600 * 1000 - OAUTH_EXPIRY_BUFFER\<close>.
\<close>

lemma callback_exchange_buffers_expiry:
  "tokenStore (snd (callback_exchange env_steady (Some ''u1'') (Some ''abc'') w_empty)) ''u1''
     = Some \<lparr>accessToken = Some ''A1'', refreshToken = Some ''R1'',
             instanceUrl = Some ''https://x'',
             expiresAt = 1000000 + 3600 * 1000 - OAUTH_EXPIRY_BUFFER\<rparr>"
  by (simp add: scenario_defs js_defs prim_defs callback_exchange_def OAUTH_EXPIRY_BUFFER_def
      Let_def)

text \<open>
  C5 (the code at the failing input). The user \<open>u1\<close> has a record with refresh token
  \<open>R1\<close>; at time 1000000 the provider answers the refresh with access token \<open>A2\<close>
  and \<open>expires_in = 3600\<close>. The record that \<open>refreshAccessToken\<close> returns and writes
  has \<open>expiresAt = 1000000 + 3600 * 1000\<close>: the whole lifetime, with no buffer taken
  off, which is \<open>OAUTH_EXPIRY_BUFFER\<close> later than the claim states.
\<close>

theorem c5_refresh_stores_unbuffered_expiry:
  "fst (refreshAccessToken env_steady ''u1'' w_redis_u1)
     = Some \<lparr>accessToken = Some ''A2'', refreshToken = Some ''R1'',
             instanceUrl = Some ''https://x'', expiresAt = 1000000 + 3600 * 1000\<rparr>
   \<and> redis (snd (refreshAccessToken env_steady ''u1'' w_redis_u1)) (token_key ''u1'')
     = Some \<lparr>payload = \<lparr>accessToken = Some ''A2'', refreshToken = Some ''R1'',
                         instanceUrl = Some ''https://x'', expiresAt = 1000000 + 3600 * 1000\<rparr>,
             deadline = 1000000 + 3600 * 1000\<rparr>
   \<and> (1000000 + 3600 * 1000 :: int)
     = (1000000 + 3600 * 1000 - OAUTH_EXPIRY_BUFFER) + 5 * 60 * 1000"
  by (simp add: scenario_defs js_defs prim_defs refreshAccessToken_def getTokenData_def
      setTokenData_def OAUTH_EXPIRY_BUFFER_def Let_def)

text \<open>
  C6. A refresh that fails, for whatever reason, returns none and leaves the Redis
  database and the auth routes' token store exactly as they were; a callback that
  does not answer 200 leaves both as they were; and when the provider's token endpoint
  fails (no response, or an error status), the refresh does return none and the
  callback does not answer 200. No failed operation writes a record, in full or in
  part.
\<close>

theorem c6_failure_writes_nothing:
  "(fst (refreshAccessToken env uid w) = None \<longrightarrow>
      redis (snd (refreshAccessToken env uid w)) = redis w
      \<and> tokenStore (snd (refreshAccessToken env uid w)) = tokenStore w)
   \<and> (fst (callback env code state err w) \<noteq> Json 200 ''Salesforce connected successfully'' \<longrightarrow>
      tokenStore (snd (callback env code state err w)) = tokenStore w
      \<and> redis (snd (callback env code state err w)) = redis w)
   \<and> ((\<forall>t g. isl (token_endpoint env t g)) \<longrightarrow>
      fst (refreshAccessToken env uid w) = None
      \<and> fst (callback env code state err w) \<noteq> Json 200 ''Salesforce connected successfully'')"
proof (intro conjI impI)
  assume "fst (refreshAccessToken env uid w) = None"
  then have "refreshAccessToken env uid w = (None, snd (refreshAccessToken env uid w))"
    by (metis prod.collapse)
  from refresh_none_frame [OF this]
  show "redis (snd (refreshAccessToken env uid w)) = redis w"
    and "tokenStore (snd (refreshAccessToken env uid w)) = tokenStore w"
    by simp_all
next
  assume "fst (callback env code state err w) \<noteq> Json 200 ''Salesforce connected successfully''"
  then show "tokenStore (snd (callback env code state err w)) = tokenStore w"
    and "redis (snd (callback env code state err w)) = redis w"
    by (auto simp: callback_def callback_session_def callback_exchange_def prim_defs Let_def
        split: prod.splits sum.splits if_splits js_prop.splits)
next
  assume down: "\<forall>t g. isl (token_endpoint env t g)"
  show "fst (refreshAccessToken env uid w) = None"
  proof (cases "fst (refreshAccessToken env uid w)")
    case None
    then show ?thesis .
  next
    case (Some new)
    then have "refreshAccessToken env uid w = (Some new, snd (refreshAccessToken env uid w))"
      by (metis prod.collapse)
    from refresh_some [OF this] obtain old :: TokenData and w1 data w2 where
      "axios_post_token env (RefreshGrant (js_str (refreshToken old))) w1 = (Inr data, w2)"
      by blast
    then have "token_endpoint env (tick w1) (RefreshGrant (js_str (refreshToken old))) = Inr data"
      by (simp add: axios_post_token_def)
    with down show ?thesis
      by (metis sum.disc(2))
  qed
  show "fst (callback env code state err w) \<noteq> Json 200 ''Salesforce connected successfully''"
    using down
    apply (auto simp: callback_def callback_session_def callback_exchange_def prim_defs Let_def
        split: prod.splits sum.splits if_splits js_prop.splits)
     apply (metis sum.disc(2))+
    done
qed

text \<open>
  The theorem while the provider answers every token request with status 400: the
  refresh for \<open>u1\<close> returns none, the callback for \<open>state0\<close> answers 400, and the
  records of \<open>u1\<close> are untouched.
\<close>

theorem c6_witness:
  "(\<forall>t g. isl (token_endpoint env_provider_down t g))
   \<and> fst (refreshAccessToken env_provider_down ''u1'' w_connected) = None
   \<and> redis (snd (refreshAccessToken env_provider_down ''u1'' w_connected)) (token_key ''u1'')
       = Some \<lparr>payload = tok1, deadline = 5000000\<rparr>
   \<and> fst (callback env_provider_down (Some ''abc'') (Some state0) None w_connected)
       = Json 400 ''Token exchange failed''
   \<and> tokenStore (snd (callback env_provider_down (Some ''abc'') (Some state0) None w_connected))
        ''u1'' = Some tok1"
proof -
  have down: "\<forall>t g. isl (token_endpoint env_provider_down t g)"
    by (simp add: scenario_defs)
  have resp: "fst (callback env_provider_down (Some ''abc'') (Some state0) None w_connected)
      = Json 400 ''Token exchange failed''"
    by (simp add: scenario_defs js_defs prim_defs callback_def callback_session_def
        callback_exchange_def)
  have before: "redis w_connected (token_key ''u1'') = Some \<lparr>payload = tok1, deadline = 5000000\<rparr>"
    "tokenStore w_connected ''u1'' = Some tok1"
    by (simp_all add: scenario_defs js_defs)
  from c6_failure_writes_nothing
    [of env_provider_down "''u1''" w_connected "Some ''abc''" "Some state0" None]
  show ?thesis
    using down resp before by simp
qed

text \<open>
  C7. For every successful refresh whose provider response carries no
  \<open>refresh_token\<close>, the record the refresh returns has the refresh token of the record
  that was stored before, and the user's entry in Redis afterwards is either that
  returned record (written with \<open>expiresAt\<close> as its deadline) or, when the connection
  was not ready at the write, the untouched previous entry.
\<close>

theorem c7_refresh_token_preserved:
  assumes stored: "fst (getTokenData env uid w) = Some old"
      and omits: "\<forall>t rt data. token_endpoint env t (RefreshGrant rt) = Inr data
                    \<longrightarrow> refresh_token data = None"
      and ok: "refreshAccessToken env uid w = (Some new, w')"
  shows "refreshToken new = refreshToken old
       \<and> (redis w' (token_key uid) = redis w (token_key uid)
          \<or> redis w' (token_key uid) = Some \<lparr>payload = new, deadline = expiresAt new\<rparr>)"
proof -
  from refresh_some [OF ok] obtain old' w1 data w2 where
    g: "getTokenData env uid (emit (RefreshCall uid) w) = (Some old', w1)" and
    p: "axios_post_token env (RefreshGrant (js_str (refreshToken old'))) w1 = (Inr data, w2)" and
    n: "new = \<lparr>accessToken = access_token data,
               refreshToken = js_or (refresh_token data) (refreshToken old'),
               instanceUrl = js_or (instance_url data) (instanceUrl old'),
               expiresAt = Date_now env w2 + parseInt_expires_in (expires_in data) * 1000\<rparr>" and
    w': "w' = snd (setTokenData env uid new w2)"
    by blast
  from g stored have same: "old' = old"
    using getTokenData_emit [of env uid "RefreshCall uid" w] by simp
  from p have "token_endpoint env (tick w1) (RefreshGrant (js_str (refreshToken old'))) = Inr data"
    by (simp add: axios_post_token_def)
  with omits have "refresh_token data = None"
    by blast
  then have rt: "refreshToken new = refreshToken old"
    using n same by (simp add: js_or_def truthy_def)
  have r1: "redis w1 = redis w"
    using getTokenData_pair [OF g] by (simp add: emit_def)
  have r2: "redis w2 = redis w1"
    using axios_post_token_pair [OF p] by simp
  have "redis w' = redis w2
      \<or> redis w' = (redis w2)(token_key uid \<mapsto> \<lparr>payload = new, deadline = expiresAt new\<rparr>)"
    unfolding w' by (rule setTokenData_redis)
  then show ?thesis
    using rt r1 r2 by auto
qed

text \<open>
  The theorem at the record of \<open>u1\<close>, whose refresh token is \<open>R1\<close>: the refreshed
  record carries the new access token \<open>A2\<close> and still \<open>R1\<close>, and it is the one in
  Redis afterwards.
\<close>

theorem c7_witness:
  "fst (getTokenData env_steady ''u1'' w_redis_u1) = Some tok1
   \<and> (\<forall>t rt. token_endpoint env_steady t (RefreshGrant rt) = Inr resp1)
   \<and> refresh_token resp1 = None
   \<and> (\<exists>new w'. refreshAccessToken env_steady ''u1'' w_redis_u1 = (Some new, w')
         \<and> accessToken new = Some ''A2''
         \<and> refreshToken new = Some ''R1''
         \<and> redis w' (token_key ''u1'') = Some \<lparr>payload = new, deadline = expiresAt new\<rparr>)"
proof -
  let ?new = "\<lparr>accessToken = Some ''A2'', refreshToken = Some ''R1'',
               instanceUrl = Some ''https://x'', expiresAt = 4600000\<rparr>"
  let ?w' = "snd (refreshAccessToken env_steady ''u1'' w_redis_u1)"
  have stored: "fst (getTokenData env_steady ''u1'' w_redis_u1) = Some tok1"
    by (simp add: scenario_defs js_defs prim_defs getTokenData_def)
  have omits: "\<forall>t rt data. token_endpoint env_steady t (RefreshGrant rt) = Inr data
      \<longrightarrow> refresh_token data = None"
    by (auto simp: scenario_defs)
  have ok: "refreshAccessToken env_steady ''u1'' w_redis_u1 = (Some ?new, ?w')"
    by (simp add: prod_eq_iff scenario_defs js_defs prim_defs refreshAccessToken_def
        getTokenData_def setTokenData_def Let_def)
  have changed: "redis ?w' (token_key ''u1'') \<noteq> redis w_redis_u1 (token_key ''u1'')"
    by (simp add: scenario_defs js_defs prim_defs refreshAccessToken_def
        getTokenData_def setTokenData_def Let_def)
  from c7_refresh_token_preserved [OF stored omits ok] changed
  have kept: "refreshToken ?new = refreshToken tok1"
    and written: "redis ?w' (token_key ''u1'') = Some \<lparr>payload = ?new, deadline = expiresAt ?new\<rparr>"
    by blast+
  have "refreshAccessToken env_steady ''u1'' w_redis_u1 = (Some ?new, ?w')
      \<and> accessToken ?new = Some ''A2''
      \<and> refreshToken ?new = Some ''R1''
      \<and> redis ?w' (token_key ''u1'') = Some \<lparr>payload = ?new, deadline = expiresAt ?new\<rparr>"
    using ok kept written by (simp add: tok1_def)
  then have "\<exists>new w'. refreshAccessToken env_steady ''u1'' w_redis_u1 = (Some new, w')
      \<and> accessToken new = Some ''A2''
      \<and> refreshToken new = Some ''R1''
      \<and> redis w' (token_key ''u1'') = Some \<lparr>payload = new, deadline = expiresAt new\<rparr>"
    by blast
  moreover have "\<forall>t rt. token_endpoint env_steady t (RefreshGrant rt) = Inr resp1"
    and "refresh_token resp1 = None"
    by (simp_all add: env_steady_def resp1_def)
  ultimately show ?thesis
    using stored by blast
qed

section \<open>The token store\<close>

text \<open>
  C8 (amended). For every user and every record with \<open>expiresAt\<close> later than now: if
  the Redis connection is ready when \<open>setTokenData\<close> runs, the call reports no error
  and the entry under the key \<open>token_key userId\<close> holds exactly that record with a
  time to live of \<open>expiresAt - now\<close>; every \<open>getTokenData\<close> that runs while the connection is
  ready, before the deadline, and while the entry is still the one written returns
  exactly that record. If the connection is not ready, \<open>setTokenData\<close> writes nothing
  and reports no error (it only logs a warning).
\<close>

theorem c8_set_then_get:
  assumes fresh: "Date_now env w < expiresAt token"
  shows "(isRedisConnected env w \<longrightarrow>
            fst (setTokenData env uid token w) = Inr ()
            \<and> redis (snd (setTokenData env uid token w)) (token_key uid)
                = Some \<lparr>payload = token,
                        deadline = Date_now env w + (expiresAt token - Date_now env w)\<rparr>
            \<and> (\<forall>w'. redis w' (token_key uid)
                        = redis (snd (setTokenData env uid token w)) (token_key uid)
                      \<and> isRedisConnected env w' \<and> Date_now env w' < expiresAt token
                   \<longrightarrow> fst (getTokenData env uid w') = Some token))
       \<and> (\<not> isRedisConnected env w \<longrightarrow> setTokenData env uid token w = (Inr (), w))"
  using fresh
  by (simp add: setTokenData_def getTokenData_def redis_set_def redis_get_def step_def Let_def)

text \<open>
  The theorem at the record of \<open>u1\<close> written into an empty, connected store: the
  read that follows returns it.
\<close>

theorem c8_witness:
  "Date_now env_steady w_empty < expiresAt tok1
   \<and> isRedisConnected env_steady w_empty
   \<and> fst (setTokenData env_steady ''u1'' tok1 w_empty) = Inr ()
   \<and> isRedisConnected env_steady (snd (setTokenData env_steady ''u1'' tok1 w_empty))
   \<and> fst (getTokenData env_steady ''u1'' (snd (setTokenData env_steady ''u1'' tok1 w_empty)))
       = Some tok1"
proof -
  let ?w' = "snd (setTokenData env_steady ''u1'' tok1 w_empty)"
  have fresh: "Date_now env_steady w_empty < expiresAt tok1"
    and ready: "isRedisConnected env_steady w_empty"
    and ready': "isRedisConnected env_steady ?w'"
    and fresh': "Date_now env_steady ?w' < expiresAt tok1"
    by (simp_all add: scenario_defs prim_defs)
  from c8_set_then_get [OF fresh, of "''u1''"] ready
  have ok: "fst (setTokenData env_steady ''u1'' tok1 w_empty) = Inr ()"
    and rd: "\<forall>w'. redis w' (token_key ''u1'') = redis ?w' (token_key ''u1'')
               \<and> isRedisConnected env_steady w' \<and> Date_now env_steady w' < expiresAt tok1
             \<longrightarrow> fst (getTokenData env_steady ''u1'' w') = Some tok1"
    by blast+
  from rd ready' fresh' have "fst (getTokenData env_steady ''u1'' ?w') = Some tok1"
    by blast
  then show ?thesis
    using fresh ready ok ready' by blast
qed

text \<open>
  The claim as stated fails when Redis is not connected at the time of the write: the
  record is valid, \<open>setTokenData\<close> returns normally and leaves the world as it was,
  and a read made once the connection is up finds nothing.
\<close>

theorem c8_counterexample:
  "Date_now env_redis_late w_empty < expiresAt tok1
   \<and> setTokenData env_redis_late ''u1'' tok1 w_empty = (Inr (), w_empty)
   \<and> isRedisConnected env_redis_late (step w_empty)
   \<and> fst (getTokenData env_redis_late ''u1'' (step w_empty)) = None"
  by (simp add: scenario_defs js_defs prim_defs setTokenData_def getTokenData_def Let_def)

section \<open>Disconnect\<close>

text \<open>
  What \<open>clearTokenData\<close> achieves when it runs on a ready connection: the next read
  finds nothing and the next call is refused before any outbound request.
\<close>

lemma clearTokenData_then_call:
  assumes "isRedisConnected env w"
  shows "fst (getTokenData env uid (clearTokenData env uid w)) = None
       \<and> makeSalesforceApiCall env uid endpoint method data (clearTokenData env uid w)
           = (Inl (Error ''User is not authenticated with Salesforce.''),
              snd (getTokenData env uid (clearTokenData env uid w)))
       \<and> trace (snd (getTokenData env uid (clearTokenData env uid w))) = trace w"
  using assms
  by (simp add: clearTokenData_def getTokenData_def makeSalesforceApiCall_def prim_defs Let_def)

text \<open>
  C9 (the code at the failing input). The user \<open>u1\<close> has a record in Redis and one in
  the auth routes' own token store. \<open>POST /disconnect\<close> answers 200 and removes the
  latter; it never calls \<open>clearTokenData\<close>. The record in Redis is still there:
  \<open>getTokenData\<close> returns it, and the next call of the authenticated client sends its
  request with the old access token and succeeds.
\<close>

theorem c9_disconnect_leaves_redis_record:
  "fst (disconnect (Some ''u1'') w_connected) = Json 200 ''Disconnected from Salesforce''
   \<and> tokenStore (snd (disconnect (Some ''u1'') w_connected)) ''u1'' = None
   \<and> fst (getTokenData env_steady ''u1'' (snd (disconnect (Some ''u1'') w_connected))) = Some tok1
   \<and> fst (makeSalesforceApiCall env_steady ''u1'' ''/services/oauth2/userinfo'' GET None
            (snd (disconnect (Some ''u1'') w_connected))) = Inr ''ok''
   \<and> trace (snd (makeSalesforceApiCall env_steady ''u1'' ''/services/oauth2/userinfo'' GET None
                   (snd (disconnect (Some ''u1'') w_connected))))
       = [ApiRequest \<lparr>req_method = GET, req_url = ''https://x/services/oauth2/userinfo'',
                      req_authorization = ''Bearer A1'', req_data = None\<rparr>]"
  by (simp add: scenario_defs js_defs prim_defs disconnect_def getTokenData_def
      makeSalesforceApiCall_def)

text \<open>
  C10. \<open>POST /disconnect\<close> for a user answers 200, deletes that user's record from
  the auth routes' token store and deletes every session bound to that user, so that a
  callback carrying a state that was issued to the user before (the hexadecimal form of
  16 random bytes) is answered with 400 "Invalid or expired state" and changes
  nothing; the records of all other users and the sessions bound to other users are
  as before.
\<close>

theorem c10_disconnect_removes_sessions:
  assumes uid: "truthy query_userId"
      and d: "disconnect query_userId w = (resp, w')"
  shows "resp = Json 200 ''Disconnected from Salesforce''
       \<and> tokenStore w' (js_str query_userId) = None
       \<and> (\<forall>S e. sessionStore w S = Some e \<and> userId e = js_str query_userId \<longrightarrow>
             sessionStore w' S = None)
       \<and> (\<forall>env bs e code. length bs = 16 \<and> sessionStore w (toHex bs) = Some e
              \<and> userId e = js_str query_userId \<and> truthy code \<longrightarrow>
             callback env code (Some (toHex bs)) None w'
               = (Json 400 ''Invalid or expired state'', w'))
       \<and> (\<forall>u. u \<noteq> js_str query_userId \<longrightarrow> tokenStore w' u = tokenStore w u)
       \<and> (\<forall>S e. sessionStore w S = Some e \<and> userId e \<noteq> js_str query_userId \<longrightarrow>
             sessionStore w' S = Some e)"
proof -
  let ?u = "js_str query_userId"
  from uid d have resp: "resp = Json 200 ''Disconnected from Salesforce''"
    and w': "w' = w\<lparr>tokenStore := js_delete (tokenStore w) ?u,
                    sessionStore := (\<lambda>state. case sessionStore w state of
                        None \<Rightarrow> None
                      | Some s \<Rightarrow> if userId s = ?u then None else Some s)\<rparr>"
    by (auto simp: disconnect_def)
  have tok: "tokenStore w' ?u = None"
    and others: "\<forall>u. u \<noteq> ?u \<longrightarrow> tokenStore w' u = tokenStore w u"
    by (simp_all add: w' js_delete_def)
  have gone: "\<forall>S e. sessionStore w S = Some e \<and> userId e = ?u \<longrightarrow> sessionStore w' S = None"
    and kept: "\<forall>S e. sessionStore w S = Some e \<and> userId e \<noteq> ?u \<longrightarrow> sessionStore w' S = Some e"
    by (simp_all add: w')
  have refused: "\<forall>env bs e code. length bs = 16 \<and> sessionStore w (toHex bs) = Some e
              \<and> userId e = ?u \<and> truthy code \<longrightarrow>
             callback env code (Some (toHex bs)) None w'
               = (Json 400 ''Invalid or expired state'', w')"
  proof (intro allI impI)
    fix env :: env and bs e code
    assume a: "length bs = 16 \<and> sessionStore w (toHex bs) = Some e
        \<and> userId e = ?u \<and> truthy code"
    then have "sessionStore w' (toHex bs) = None"
      using gone by blast
    from callback_session_absent [OF this, of code] a state_not_inherited [of bs]
      state_nonempty [of bs]
    show "callback env code (Some (toHex bs)) None w' = (Json 400 ''Invalid or expired state'', w')"
      by (simp add: callback_def)
  qed
  show ?thesis
    using resp tok gone refused others kept by blast
qed

lemma state0_hex: "state0 = toHex (fst (randomBytes env_steady 16 w_empty))"
  by (simp add: scenario_defs hex_defs)

text \<open>
  The theorem at the disconnect of \<open>u1\<close>: the record and the session of \<open>u1\<close> are
  gone and a callback with \<open>state0\<close> is refused, while the record and the session of
  \<open>u2\<close> are still there.
\<close>

theorem c10_witness:
  "truthy (Some ''u1'')
   \<and> sessionStore w_connected state0 = Some \<lparr>userId = ''u1'', timestamp = 0\<rparr>
   \<and> tokenStore w_connected ''u1'' = Some tok1
   \<and> tokenStore (snd (disconnect (Some ''u1'') w_connected)) ''u1'' = None
   \<and> sessionStore (snd (disconnect (Some ''u1'') w_connected)) state0 = None
   \<and> fst (callback env_steady (Some ''abc'') (Some state0) None
            (snd (disconnect (Some ''u1'') w_connected)))
       = Json 400 ''Invalid or expired state''
   \<and> tokenStore (snd (disconnect (Some ''u1'') w_connected)) ''u2'' = Some tok1
   \<and> sessionStore (snd (disconnect (Some ''u1'') w_connected)) state1
       = Some \<lparr>userId = ''u2'', timestamp = 0\<rparr>"
proof -
  let ?w' = "snd (disconnect (Some ''u1'') w_connected)"
  let ?bs = "fst (randomBytes env_steady 16 w_empty)"
  let ?e0 = "\<lparr>userId = ''u1'', timestamp = 0\<rparr>"
  let ?e1 = "\<lparr>userId = ''u2'', timestamp = 0\<rparr>"
  have uid: "truthy (Some ''u1'')" and code: "truthy (Some ''abc'')"
    by (simp_all add: truthy_def)
  have js: "js_str (Some ''u1'') = ''u1''"
    by (simp add: js_str_def)
  have d: "disconnect (Some ''u1'') w_connected = (fst (disconnect (Some ''u1'') w_connected), ?w')"
    by simp
  have s0: "sessionStore w_connected state0 = Some ?e0"
    and s1: "sessionStore w_connected state1 = Some ?e1"
    and t1: "tokenStore w_connected ''u1'' = Some tok1"
    and t2: "tokenStore w_connected ''u2'' = Some tok1"
    by (simp_all add: w_connected_def state0_def state1_def)
  have len: "length ?bs = 16"
    by (simp add: length_randomBytes)
  have s0': "sessionStore w_connected (toHex ?bs) = Some ?e0"
    using s0 by (simp add: state0_hex)
  note inst = c10_disconnect_removes_sessions [OF uid d, unfolded js]
  note p_tok = inst [THEN conjunct2, THEN conjunct1]
  note p_gone = inst [THEN conjunct2, THEN conjunct2, THEN conjunct1, rule_format]
  note p_refused = inst [THEN conjunct2, THEN conjunct2, THEN conjunct2, THEN conjunct1,
      rule_format]
  note p_others = inst [THEN conjunct2, THEN conjunct2, THEN conjunct2, THEN conjunct2,
      THEN conjunct1, rule_format]
  note p_kept = inst [THEN conjunct2, THEN conjunct2, THEN conjunct2, THEN conjunct2,
      THEN conjunct2, rule_format]
  have b: "sessionStore ?w' state0 = None"
    by (rule p_gone [of state0 ?e0]) (simp add: s0)
  have "callback env_steady (Some ''abc'') (Some (toHex ?bs)) None ?w'
      = (Json 400 ''Invalid or expired state'', ?w')"
    by (rule p_refused [of ?bs ?e0 "Some ''abc''" env_steady]) (simp add: len s0' code)
  then have c: "fst (callback env_steady (Some ''abc'') (Some state0) None ?w')
      = Json 400 ''Invalid or expired state''"
    by (simp add: state0_hex [symmetric])
  have e: "tokenStore ?w' ''u2'' = Some tok1"
    using p_others [of "''u2''"] t2 by simp
  have f: "sessionStore ?w' state1 = Some ?e1"
    by (rule p_kept [of state1 ?e1]) (simp add: s1)
  show ?thesis
    by (intro conjI) (rule uid s0 t1 p_tok b c e f)+
qed

end
